theory Spec2Isabelle
  imports Complex_Main "HOL-Library.Multiset"
begin

section \<open>Customization engine: the overlay layer model\<close>

text \<open>
  The user dashboard keeps the overlay of one customization session in the React state
  \<open>editFormData\<close>, next to the state \<open>zoomLevel\<close>. JavaScript numbers are modelled as
  real numbers: rounding, infinities and NaN of IEEE doubles are outside the model.
\<close>

record jsFile =
  file_name :: string
  file_size :: nat
  file_type :: string

record point =
  pos_x :: real
  pos_y :: real

record dims =
  width :: real
  height :: real

record editFormData =
  name :: string
  image :: "jsFile option"
  textColor :: string
  imagePosition :: point
  textPosition :: point
  fontSize :: real
  fontFamily :: string
  fontStyle :: string
  fontWeight :: string
  textRotation :: real
  imageRotation :: real
  imageSize :: dims

text \<open>The value passed to \<open>useState\<close> and restored when the modal closes.\<close>

definition initialEditFormData :: editFormData where
  "initialEditFormData =
     \<lparr> name = [], image = None, textColor = ''#FFFFFF'',
       imagePosition = \<lparr> pos_x = 50, pos_y = 180 \<rparr>,
       textPosition = \<lparr> pos_x = 200, pos_y = 240 \<rparr>,
       fontSize = 24, fontFamily = ''Arial'', fontStyle = ''normal'',
       fontWeight = ''normal'', textRotation = 0, imageRotation = 0,
       imageSize = \<lparr> width = 100, height = 100 \<rparr> \<rparr>"

subsection \<open>Dragging\<close>

text \<open>
  \<open>textRef.current\<close> is the rendered text element, absent while no text is shown; only its
  \<open>offsetWidth\<close> and \<open>offsetHeight\<close> are read. \<open>textRef.current?.offsetWidth || 0\<close> is 0
  when the element is absent (and when the measure is 0).
\<close>

definition offsetWidth_or_0 :: "dims option \<Rightarrow> real" where
  "offsetWidth_or_0 r = (case r of None \<Rightarrow> 0 | Some d \<Rightarrow> width d)"

definition offsetHeight_or_0 :: "dims option \<Rightarrow> real" where
  "offsetHeight_or_0 r = (case r of None \<Rightarrow> 0 | Some d \<Rightarrow> height d)"

definition handleTextDrag :: "real \<Rightarrow> dims option \<Rightarrow> point \<Rightarrow> editFormData \<Rightarrow> editFormData" where
  "handleTextDrag zoomLevel textRef delta prev =
     (let scaledWidth = offsetWidth_or_0 textRef * zoomLevel;
          scaledHeight = offsetHeight_or_0 textRef * zoomLevel;
          newX = max 0 (min (400 - scaledWidth) (pos_x (textPosition prev) + pos_x delta / zoomLevel));
          newY = max 0 (min (280 - scaledHeight) (pos_y (textPosition prev) + pos_y delta / zoomLevel))
      in prev\<lparr> textPosition := \<lparr> pos_x = newX, pos_y = newY \<rparr> \<rparr>)"

definition handleImageDrag :: "real \<Rightarrow> point \<Rightarrow> editFormData \<Rightarrow> editFormData" where
  "handleImageDrag zoomLevel delta prev =
     (let scaledWidth = width (imageSize prev) * zoomLevel;
          scaledHeight = height (imageSize prev) * zoomLevel;
          newX = max 0 (min (400 - scaledWidth) (pos_x (imagePosition prev) + pos_x delta / zoomLevel));
          newY = max 0 (min (280 - scaledHeight) (pos_y (imagePosition prev) + pos_y delta / zoomLevel))
      in prev\<lparr> imagePosition := \<lparr> pos_x = newX, pos_y = newY \<rparr> \<rparr>)"

subsection \<open>Rotation buttons\<close>

text \<open>
  The \<open>%\<close> operator of JavaScript on numbers: the quotient is truncated toward zero, so the
  result has the sign of the dividend.
\<close>

definition js_trunc :: "real \<Rightarrow> int" where
  "js_trunc q = (if 0 \<le> q then \<lfloor>q\<rfloor> else \<lceil>q\<rceil>)"

definition js_rem :: "real \<Rightarrow> real \<Rightarrow> real" where
  "js_rem a n = a - n * of_int (js_trunc (a / n))"

datatype layer = TextLayer | ImageLayer

definition handleRotationChange :: "layer \<Rightarrow> real \<Rightarrow> editFormData \<Rightarrow> editFormData" where
  "handleRotationChange type delta prev =
     (case type of
        TextLayer \<Rightarrow> prev\<lparr> textRotation := js_rem (textRotation prev + delta) 360 \<rparr>
      | ImageLayer \<Rightarrow> prev\<lparr> imageRotation := js_rem (imageRotation prev + delta) 360 \<rparr>)"

subsection \<open>Resize gesture\<close>

text \<open>
  \<open>handleResizeStart\<close> reads the pointer position and the current image size, and creates
  the move listener, a closure over these values, the handle and the \<open>zoomLevel\<close> of the
  render in which the gesture started. The record holds what the closure captured.
\<close>

datatype handle = BottomRight | TopLeft

record resizeGesture =
  g_handle :: handle
  startX :: real
  startY :: real
  startWidth :: real
  startHeight :: real
  g_zoomLevel :: real

definition handleResizeStart :: "real \<Rightarrow> editFormData \<Rightarrow> point \<Rightarrow> handle \<Rightarrow> resizeGesture" where
  "handleResizeStart zoomLevel form e h =
     \<lparr> g_handle = h, startX = pos_x e, startY = pos_y e,
       startWidth = width (imageSize form), startHeight = height (imageSize form),
       g_zoomLevel = zoomLevel \<rparr>"

definition handleResizeMove :: "resizeGesture \<Rightarrow> point \<Rightarrow> editFormData \<Rightarrow> editFormData" where
  "handleResizeMove g moveEvent prev =
     (let deltaX = (pos_x moveEvent - startX g) / g_zoomLevel g;
          deltaY = (pos_y moveEvent - startY g) / g_zoomLevel g;
          (newWidth, newHeight0) =
             (case g_handle g of
                BottomRight \<Rightarrow> (max 50 (startWidth g + deltaX), max 50 (startHeight g + deltaY))
              | TopLeft \<Rightarrow> (max 50 (startWidth g - deltaX), max 50 (startHeight g - deltaY)));
          aspectRatio = startWidth g / startHeight g;
          newHeight = newWidth / aspectRatio;
          scaledWidth = newWidth * g_zoomLevel g;
          scaledHeight = newHeight * g_zoomLevel g;
          maxX = 400 - scaledWidth;
          maxY = 280 - scaledHeight;
          newX = max 0 (min maxX (pos_x (imagePosition prev)));
          newY = max 0 (min maxY (pos_y (imagePosition prev)))
      in prev\<lparr> imageSize := \<lparr> width = newWidth, height = newHeight \<rparr>,
               imagePosition := \<lparr> pos_x = newX, pos_y = newY \<rparr> \<rparr>)"

text \<open>
  A session state used in the examples below: the initial overlay after the image layer
  has been dragged to the logical position (50, 50).
\<close>

definition movedForm :: editFormData where
  "movedForm = initialEditFormData\<lparr> imagePosition := \<lparr> pos_x = 50, pos_y = 50 \<rparr> \<rparr>"

section \<open>Catalog: posters, filter and sort, realtime merge, gallery download\<close>

text \<open>
  A row of the \<open>posters\<close> table as the client holds it. \<open>created_at\<close> stands for the
  number \<open>new Date(created_at).getTime()\<close>, the only use the dashboard makes of the field;
  \<open>download_count\<close> may be absent (the admin page does not select it, the column may be
  null), which is why the code reads it as \<open>download_count || 0\<close>.
\<close>

datatype category = Festival | Birthday | Marriage

fun category_name :: "category \<Rightarrow> string" where
  "category_name Festival = ''Festival''"
| "category_name Birthday = ''Birthday''"
| "category_name Marriage = ''Marriage''"

record poster =
  poster_id :: int
  title :: string
  category :: category
  download_url :: string
  psd_url :: "string option"
  font_family :: "string option"
  is_editable :: bool
  created_at :: int
  download_count :: "int option"

definition count_or_0 :: "int option \<Rightarrow> int" where
  "count_or_0 c = (case c of None \<Rightarrow> 0 | Some n \<Rightarrow> n)"

subsection \<open>Strings\<close>

text \<open>
  Strings are lists of characters. \<open>toLowerCase\<close> is modelled on the letters A to Z;
  case mapping of characters beyond ASCII is outside the model.
\<close>

definition toLowerCase_char :: "char \<Rightarrow> char" where
  "toLowerCase_char c =
     (let n = (of_char c :: nat) in if 65 \<le> n \<and> n \<le> 90 then char_of (n + 32) else c)"

definition toLowerCase :: "string \<Rightarrow> string" where
  "toLowerCase s = map toLowerCase_char s"

fun startsWith :: "string \<Rightarrow> string \<Rightarrow> bool" where
  "startsWith s [] = True"
| "startsWith [] (q # qs) = False"
| "startsWith (c # cs) (q # qs) = (c = q \<and> startsWith cs qs)"

fun str_includes :: "string \<Rightarrow> string \<Rightarrow> bool" where
  "str_includes [] q = (q = [])"
| "str_includes (c # cs) q = (startsWith (c # cs) q \<or> str_includes cs q)"

subsection \<open>Filter and sort\<close>

text \<open>
  \<open>Array.prototype.sort\<close> belongs to the JavaScript engine. ECMAScript requires it to be
  stable and to order by the sign of the comparator; it is modelled as the stable insertion
  sort driven by the comparator: \<open>a\<close> is placed before the first \<open>b\<close> with
  \<open>cmp a b \<le> 0\<close>.
\<close>

fun sort_insert :: "('a \<Rightarrow> 'a \<Rightarrow> int) \<Rightarrow> 'a \<Rightarrow> 'a list \<Rightarrow> 'a list" where
  "sort_insert cmp a [] = [a]"
| "sort_insert cmp a (b # bs) = (if cmp a b \<le> 0 then a # b # bs else b # sort_insert cmp a bs)"

fun array_sort :: "('a \<Rightarrow> 'a \<Rightarrow> int) \<Rightarrow> 'a list \<Rightarrow> 'a list" where
  "array_sort cmp [] = []"
| "array_sort cmp (a # as) = sort_insert cmp a (array_sort cmp as)"

datatype sortBy = Latest | Popular

text \<open>The two filters of the effect, before sorting.\<close>

definition applyFilters :: "poster list \<Rightarrow> string \<Rightarrow> string \<Rightarrow> poster list" where
  "applyFilters posters searchQuery selectedCategory =
     (let result = posters;
          result = (if searchQuery \<noteq> []
                    then filter (\<lambda>poster.
                           str_includes (toLowerCase (title poster)) (toLowerCase searchQuery) \<or>
                           str_includes (toLowerCase (category_name (category poster))) (toLowerCase searchQuery))
                         result
                    else result);
          result = (if selectedCategory \<noteq> ''All''
                    then filter (\<lambda>poster. category_name (category poster) = selectedCategory) result
                    else result)
      in result)"

text \<open>The comparator of the \<open>popular\<close> mode.\<close>

abbreviation popular_cmp :: "poster \<Rightarrow> poster \<Rightarrow> int" where
  "popular_cmp \<equiv> \<lambda>a b. count_or_0 (download_count b) - count_or_0 (download_count a)"

text \<open>The value the effect passes to \<open>setFilteredPosters\<close>.\<close>

definition filterSort :: "poster list \<Rightarrow> string \<Rightarrow> string \<Rightarrow> sortBy \<Rightarrow> poster list" where
  "filterSort posters searchQuery selectedCategory sortBy =
     (let result = applyFilters posters searchQuery selectedCategory
      in case sortBy of
           Popular \<Rightarrow>
             array_sort popular_cmp result
         | Latest \<Rightarrow> array_sort (\<lambda>a b. created_at b - created_at a) result)"

subsection \<open>Realtime merge (admin page)\<close>

text \<open>
  A change event of the table: \<open>payload.eventType\<close> with \<open>payload.new\<close> (insert, update)
  or the id of \<open>payload.old\<close> (delete).
\<close>

datatype payload = INSERT poster | DELETE int | UPDATE poster

fun realtime_handler :: "payload \<Rightarrow> poster list \<Rightarrow> poster list" where
  "realtime_handler (INSERT new) prev = new # prev"
| "realtime_handler (DELETE old_id) prev = filter (\<lambda>p. poster_id p \<noteq> old_id) prev"
| "realtime_handler (UPDATE new) prev = map (\<lambda>p. if poster_id p = poster_id new then new else p) prev"

text \<open>Events are applied one at a time, in arrival order.\<close>

fun apply_events :: "payload list \<Rightarrow> poster list \<Rightarrow> poster list" where
  "apply_events [] ps = ps"
| "apply_events (e # es) ps = apply_events es (realtime_handler e ps)"

text \<open>
  Every insert event of the sequence carries an id that the catalog does not hold at the
  moment the event arrives.
\<close>

fun inserts_fresh :: "payload list \<Rightarrow> poster list \<Rightarrow> bool" where
  "inserts_fresh [] ps = True"
| "inserts_fresh (e # es) ps =
     ((case e of INSERT new \<Rightarrow> poster_id new \<notin> set (map poster_id ps) | _ \<Rightarrow> True)
      \<and> inserts_fresh es (realtime_handler e ps))"

subsection \<open>Gallery download\<close>

text \<open>
  The state \<open>handleDownload\<close> reads and writes: the dashboard's React state, the rows of the
  backend table, and the log of what reached the network and the disk. The outcomes of the
  three asynchronous calls are inputs. The ticks of the countdown timer are not modelled:
  the countdown entry is created at the start and deleted in the \<open>finally\<close> block.
\<close>

record dashboard =
  posters :: "poster list"
  filteredPosters :: "poster list"
  countdowns :: "int \<rightharpoonup> nat"
  errorMessage :: "string option"
  posters_table :: "int \<rightharpoonup> poster"
  asset_fetches :: "string list"
  saved_files :: "(string \<times> string) list"

record download_outcomes =
  count_fetch_fails :: bool
  count_update_fails :: bool
  asset_response_ok :: bool

definition set_download_count :: "int \<Rightarrow> int \<Rightarrow> poster list \<Rightarrow> poster list" where
  "set_download_count pid newCount prev =
     map (\<lambda>poster. if poster_id poster = pid then poster\<lparr> download_count := Some newCount \<rparr> else poster) prev"

definition clear_countdown :: "int \<Rightarrow> dashboard \<Rightarrow> dashboard" where
  "clear_countdown pid w = w\<lparr> countdowns := (countdowns w)(pid := None) \<rparr>"

definition handleDownload :: "download_outcomes \<Rightarrow> int \<Rightarrow> string \<Rightarrow> string \<Rightarrow> dashboard \<Rightarrow> dashboard" where
  "handleDownload out pid url ttl w0 =
     (let w = w0\<lparr> countdowns := (countdowns w0)(pid \<mapsto> 5) \<rparr> in
      case (if count_fetch_fails out then None else posters_table w pid) of
        None \<Rightarrow> clear_countdown pid (w\<lparr> errorMessage := Some ''Failed to update download count.'' \<rparr>)
      | Some posterData \<Rightarrow>
          (let newCount = count_or_0 (download_count posterData) + 1 in
           if count_update_fails out
           then clear_countdown pid (w\<lparr> errorMessage := Some ''Failed to update download count.'' \<rparr>)
           else
             (let w = w\<lparr> posters_table := (posters_table w)(pid \<mapsto> posterData\<lparr> download_count := Some newCount \<rparr>),
                          posters := set_download_count pid newCount (posters w),
                          filteredPosters := set_download_count pid newCount (filteredPosters w) \<rparr>;
                  w = w\<lparr> asset_fetches := asset_fetches w @ [url] \<rparr>
              in if \<not> asset_response_ok out
                 then clear_countdown pid
                        (w\<lparr> errorMessage := Some ''Failed to download the poster. Please try again.'' \<rparr>)
                 else clear_countdown pid
                        (w\<lparr> saved_files := saved_files w @ [(url, if ttl = [] then ''poster'' else ttl)] \<rparr>))))"

text \<open>A catalog with download counts 5, absent, 5 and 2, and a table holding poster 7 with count 3.\<close>

definition mkPoster :: "int \<Rightarrow> int option \<Rightarrow> poster" where
  "mkPoster i c = \<lparr> poster_id = i, title = ''Diwali'', category = Festival,
                    download_url = ''u'', psd_url = None, font_family = None,
                    is_editable = False, created_at = 0, download_count = c \<rparr>"

definition exampleCatalog :: "poster list" where
  "exampleCatalog = [mkPoster 1 (Some 5), mkPoster 2 None, mkPoster 3 (Some 5), mkPoster 4 (Some 2)]"

definition exampleDashboard :: dashboard where
  "exampleDashboard =
     \<lparr> posters = [mkPoster 7 (Some 3)], filteredPosters = [mkPoster 7 (Some 3)],
       countdowns = Map.empty, errorMessage = None,
       posters_table = [7 \<mapsto> mkPoster 7 (Some 3)],
       asset_fetches = [], saved_files = [] \<rparr>"

section \<open>Upload pipeline: the API route and the admin form\<close>

subsection \<open>String helpers of the route\<close>

text \<open>\<open>s.split(c)\<close> for a one-character separator; the result is never empty.\<close>

fun js_split :: "char \<Rightarrow> string \<Rightarrow> string list" where
  "js_split c [] = [[]]"
| "js_split c (x # xs) =
     (if x = c then [] # js_split c xs
      else (case js_split c xs of [] \<Rightarrow> [[x]] | s # ss \<Rightarrow> (x # s) # ss))"

text \<open>\<open>name.split('.').pop()?.toLowerCase()\<close>\<close>

definition fileExt_of :: "string \<Rightarrow> string" where
  "fileExt_of nm = toLowerCase (last (js_split CHR ''.'' nm))"

text \<open>
  The white space that \<open>\s\<close> matches among ASCII characters: tab, line feed, vertical tab,
  form feed, carriage return and space. \<open>replace(/\s+/g, '-')\<close> puts one hyphen in place of
  every maximal run of white space.
\<close>

definition is_space :: "char \<Rightarrow> bool" where
  "is_space c = (let n = (of_char c :: nat) in (9 \<le> n \<and> n \<le> 13) \<or> n = 32)"

function replace_spaces :: "string \<Rightarrow> string" where
  "replace_spaces [] = []"
| "replace_spaces (c # cs) =
     (if is_space c then CHR ''-'' # replace_spaces (dropWhile is_space cs)
      else c # replace_spaces cs)"
  by pat_completeness auto
termination
  by (relation "measure length") (auto simp: length_dropWhile_le less_Suc_eq_le)

declare replace_spaces.simps [simp del]

text \<open>The decimal numeral that a template string prints for a non-negative integer.\<close>

fun show_nat :: "nat \<Rightarrow> string" where
  "show_nat n = (if n < 10 then [char_of (48 + n)]
                 else show_nat (n div 10) @ [char_of (48 + n mod 10)])"

declare show_nat.simps [simp del]

subsection \<open>POST /api/upload\<close>

text \<open>
  The fields of the multipart form as \<open>formData.get\<close> returns them (absent is \<open>null\<close>), the
  calls the route makes to the backend, and its answer. The clock, the storage service and
  the table are inputs: \<open>storage_upload_error\<close> and \<open>insert_error\<close> give the error message
  the service reports, if any.
\<close>

record upload_form =
  form_file :: "jsFile option"
  form_thumbnail :: "jsFile option"
  form_title :: "string option"
  form_category :: "string option"
  form_isEditable :: "string option"
  form_fontFamily :: "string option"

record inserted_row =
  row_title :: string
  row_category :: string
  row_download_url :: string
  row_psd_url :: "string option"
  row_font_family :: "string option"
  row_is_editable :: bool
  row_created_at :: string

datatype backend_call =
    HttpPost string upload_form
  | StorageUpload string string
  | TableInsert inserted_row

datatype response_body =
    ErrorBody string
  | UploadBody string string string bool "string option"

record response =
  status :: nat
  body :: response_body

record route_env =
  now_file :: nat
  now_thumbnail :: nat
  now_iso :: string
  storage_upload_error :: "string \<Rightarrow> string option"
  publicUrl_of :: "string \<Rightarrow> string"
  insert_error :: "string option"

definition MAX_FILE_SIZE :: nat where
  "MAX_FILE_SIZE = 50 * 1024 * 1024"

text \<open>The size test, written the same way in the route and in the admin form.\<close>

definition exceeds_max :: "jsFile \<Rightarrow> jsFile option \<Rightarrow> bool" where
  "exceeds_max f thumbnail =
     (file_size f > MAX_FILE_SIZE \<or>
      (case thumbnail of None \<Rightarrow> False | Some t \<Rightarrow> file_size t > MAX_FILE_SIZE))"

definition size_error_message :: string where
  "size_error_message =
     ''File size exceeds maximum limit of '' @ show_nat (MAX_FILE_SIZE div (1024 * 1024)) @ ''MB''"

definition error_response :: "nat \<Rightarrow> string \<Rightarrow> response" where
  "error_response code msg = \<lparr> status = code, body = ErrorBody msg \<rparr>"

text \<open>The last part of the route: the insert into the table and the answer.\<close>

definition insert_and_respond ::
  "route_env \<Rightarrow> string \<Rightarrow> string \<Rightarrow> bool \<Rightarrow> string option \<Rightarrow> bool \<Rightarrow> string \<Rightarrow> string
    \<Rightarrow> backend_call list \<Rightarrow> response \<times> backend_call list" where
  "insert_and_respond env ttl cat isEditable font isPsd publicUrl thumbnailUrl calls =
     (let row = \<lparr> row_title = ttl, row_category = cat,
                   row_download_url = (if isPsd then thumbnailUrl else publicUrl),
                   row_psd_url = (if isPsd then Some publicUrl else None),
                   row_font_family = font, row_is_editable = isEditable,
                   row_created_at = now_iso env \<rparr>;
          calls = calls @ [TableInsert row]
      in case insert_error env of
           Some msg \<Rightarrow> (error_response 400 (''Database insert failed: '' @ msg), calls)
         | None \<Rightarrow>
             (\<lparr> status = 200,
                body = UploadBody (if isPsd then thumbnailUrl else publicUrl) ttl cat isEditable font \<rparr>,
              calls))"

text \<open>
  The request is either a form or, when \<open>request.formData()\<close> throws, the message of the
  exception, which the \<open>catch\<close> block answers with status 500.
\<close>

definition POST :: "route_env \<Rightarrow> string + upload_form \<Rightarrow> response \<times> backend_call list" where
  "POST env request =
     (case request of
        Inl msg \<Rightarrow> (error_response 500 (''Upload failed: '' @ msg), [])
      | Inr fd \<Rightarrow>
          (case (form_file fd, form_title fd, form_category fd) of
             (Some f, Some ttl, Some cat) \<Rightarrow>
               if ttl = [] \<or> cat = []
               then (error_response 400 ''Missing file, title, or category'', [])
               else if exceeds_max f (form_thumbnail fd)
               then (error_response 400 size_error_message, [])
               else
                 (let isEditable = (form_isEditable fd = Some ''true'');
                      fontFamily = form_fontFamily fd;
                      fileExt = fileExt_of (file_name f);
                      isPsd = (fileExt = ''psd'');
                      fileName = show_nat (now_file env) @ ''-'' @ replace_spaces ttl @ ''.'' @ fileExt;
                      uploadPath = (if isPsd then ''psd/'' @ fileName else ''thumbnails/'' @ fileName);
                      calls = [StorageUpload uploadPath (file_type f)]
                  in case storage_upload_error env uploadPath of
                       Some msg \<Rightarrow> (error_response 400 (''Upload failed: '' @ msg), calls)
                     | None \<Rightarrow>
                         (let publicUrl = publicUrl_of env uploadPath
                          in case form_thumbnail fd of
                               None \<Rightarrow>
                                 insert_and_respond env ttl cat isEditable fontFamily isPsd publicUrl [] calls
                             | Some thumbnail \<Rightarrow>
                                 (let thumbnailName =
                                        show_nat (now_thumbnail env) @ ''-'' @ replace_spaces ttl @ ''-thumb.png'';
                                      thumbnailPath = ''thumbnails/'' @ thumbnailName;
                                      calls = calls @ [StorageUpload thumbnailPath (file_type thumbnail)]
                                  in case storage_upload_error env thumbnailPath of
                                       Some msg \<Rightarrow>
                                         (error_response 400 (''Thumbnail upload failed: '' @ msg), calls)
                                     | None \<Rightarrow>
                                         insert_and_respond env ttl cat isEditable fontFamily isPsd publicUrl
                                           (publicUrl_of env thumbnailPath) calls)))
           | _ \<Rightarrow> (error_response 400 ''Missing file, title, or category'', [])))"

subsection \<open>The admin form\<close>

text \<open>
  The React state of the admin page that \<open>handleSave\<close> touches. The handler answers with the
  new state and the backend calls made: its own HTTP request, followed by the calls of the
  route that serves it. The ticks of the progress timer and a failure of the transport
  itself are not modelled.
\<close>

record adminForm =
  fd_category :: category
  fd_title :: string
  fd_file :: "jsFile option"
  fd_thumbnail :: "jsFile option"
  fd_isEditable :: bool
  fd_fontFamily :: string

record adminState =
  formData :: adminForm
  saving :: bool
  uploadProgress :: nat
  error :: "string option"

definition emptyAdminForm :: adminForm where
  "emptyAdminForm = \<lparr> fd_category = Festival, fd_title = [], fd_file = None, fd_thumbnail = None,
                       fd_isEditable = False, fd_fontFamily = ''Roboto'' \<rparr>"

definition validation_error :: "string \<Rightarrow> adminState \<Rightarrow> adminState \<times> backend_call list" where
  "validation_error msg st = (st\<lparr> error := Some msg, saving := False \<rparr>, [])"

definition handleSave :: "route_env \<Rightarrow> adminState \<Rightarrow> adminState \<times> backend_call list" where
  "handleSave env st0 =
     (let st = st0\<lparr> saving := True, error := None, uploadProgress := 0 \<rparr>;
          fd = formData st
      in case (fd_title fd = [], fd_file fd) of
           (False, Some f) \<Rightarrow>
             if fd_isEditable fd \<and> fileExt_of (file_name f) = ''psd'' \<and> fd_thumbnail fd = None
             then validation_error ''Thumbnail image (PNG/JPEG) is required for editable PSDs.'' st
             else if exceeds_max f (fd_thumbnail fd)
             then validation_error size_error_message st
             else
               (let formDataToSend =
                      \<lparr> form_file = Some f, form_thumbnail = fd_thumbnail fd,
                        form_title = Some (fd_title fd),
                        form_category = Some (category_name (fd_category fd)),
                        form_isEditable = Some (if fd_isEditable fd then ''true'' else ''false''),
                        form_fontFamily = Some (fd_fontFamily fd) \<rparr>;
                    (resp, route_calls) = POST env (Inr formDataToSend);
                    calls = HttpPost ''/api/upload'' formDataToSend # route_calls
                in if 200 \<le> status resp \<and> status resp \<le> 299
                   then (st\<lparr> uploadProgress := 100, formData := emptyAdminForm, saving := False \<rparr>, calls)
                   else (st\<lparr> error := Some (case body resp of
                                              ErrorBody msg \<Rightarrow> (if msg = [] then ''Failed to upload file'' else msg)
                                            | _ \<Rightarrow> ''Failed to upload file''),
                             saving := False \<rparr>, calls))
         | _ \<Rightarrow> validation_error ''Title and file are required.'' st)"

text \<open>Example inputs: a layered-source asset without thumbnail, and two services.\<close>

definition psdFile :: "nat \<Rightarrow> jsFile" where
  "psdFile n = \<lparr> file_name = ''Card.PSD'', file_size = n, file_type = ''image/vnd.adobe.photoshop'' \<rparr>"

definition psdForm :: "nat \<Rightarrow> upload_form" where
  "psdForm n = \<lparr> form_file = Some (psdFile n), form_thumbnail = None, form_title = Some ''New  Year'',
                 form_category = Some ''Festival'', form_isEditable = Some ''true'',
                 form_fontFamily = Some ''Roboto'' \<rparr>"

definition workingEnv :: route_env where
  "workingEnv = \<lparr> now_file = 1700000000000, now_thumbnail = 1700000000001,
                   now_iso = ''2023-11-14T22:13:20.000Z'',
                   storage_upload_error = (\<lambda>path. None),
                   publicUrl_of = (\<lambda>path. ''https://cdn/'' @ path),
                   insert_error = None \<rparr>"

definition storageDownEnv :: route_env where
  "storageDownEnv = workingEnv\<lparr> storage_upload_error := (\<lambda>path. Some ''Bucket not found'') \<rparr>"

definition editablePsdState :: "nat \<Rightarrow> adminState" where
  "editablePsdState n =
     \<lparr> formData = \<lparr> fd_category = Festival, fd_title = ''New  Year'', fd_file = Some (psdFile n),
                      fd_thumbnail = None, fd_isEditable = True, fd_fontFamily = ''Roboto'' \<rparr>,
       saving = False, uploadProgress = 0, error = None \<rparr>"

definition plainPsdState :: "nat \<Rightarrow> adminState" where
  "plainPsdState n =
     \<lparr> formData = \<lparr> fd_category = Festival, fd_title = ''New  Year'', fd_file = Some (psdFile n),
                      fd_thumbnail = None, fd_isEditable = False, fd_fontFamily = ''Roboto'' \<rparr>,
       saving = False, uploadProgress = 0, error = None \<rparr>"

section \<open>Properties of the customization engine\<close>

subsection \<open>Dragging\<close>

text \<open>
  Claim C1. For a zoom level \<open>z\<close> in [0.5, 3.0], one drag step of the image layer or of the
  text layer replaces only that layer's position; per axis the new coordinate is
  \<open>max 0 (min (bound - scaledSize) (coordinate + delta / z))\<close> with bound 400 for x and
  280 for y, where the scaled size is the stored image size times \<open>z\<close> for the image layer and
  the measured text box times \<open>z\<close> for the text layer. Whenever the scaled size fits the canvas,
  the new coordinate lies in \<open>[0, bound - scaledSize]\<close>; when it does not, the range is
  empty and the new coordinate is 0.
\<close>

theorem drag_step_clamped_position:
  assumes z: "1/2 \<le> z" "z \<le> 3"
  shows "handleImageDrag z d prev =
           prev\<lparr> imagePosition :=
             \<lparr> pos_x = max 0 (min (400 - width (imageSize prev) * z) (pos_x (imagePosition prev) + pos_x d / z)),
               pos_y = max 0 (min (280 - height (imageSize prev) * z) (pos_y (imagePosition prev) + pos_y d / z)) \<rparr> \<rparr>
       \<and> handleTextDrag z textRef d prev =
           prev\<lparr> textPosition :=
             \<lparr> pos_x = max 0 (min (400 - offsetWidth_or_0 textRef * z) (pos_x (textPosition prev) + pos_x d / z)),
               pos_y = max 0 (min (280 - offsetHeight_or_0 textRef * z) (pos_y (textPosition prev) + pos_y d / z)) \<rparr> \<rparr>
       \<and> (width (imageSize prev) * z \<le> 400 \<longrightarrow>
            0 \<le> pos_x (imagePosition (handleImageDrag z d prev)) \<and>
            pos_x (imagePosition (handleImageDrag z d prev)) \<le> 400 - width (imageSize prev) * z)
       \<and> (height (imageSize prev) * z \<le> 280 \<longrightarrow>
            0 \<le> pos_y (imagePosition (handleImageDrag z d prev)) \<and>
            pos_y (imagePosition (handleImageDrag z d prev)) \<le> 280 - height (imageSize prev) * z)
       \<and> (offsetWidth_or_0 textRef * z \<le> 400 \<longrightarrow>
            0 \<le> pos_x (textPosition (handleTextDrag z textRef d prev)) \<and>
            pos_x (textPosition (handleTextDrag z textRef d prev)) \<le> 400 - offsetWidth_or_0 textRef * z)
       \<and> (offsetHeight_or_0 textRef * z \<le> 280 \<longrightarrow>
            0 \<le> pos_y (textPosition (handleTextDrag z textRef d prev)) \<and>
            pos_y (textPosition (handleTextDrag z textRef d prev)) \<le> 280 - offsetHeight_or_0 textRef * z)
       \<and> (400 < width (imageSize prev) * z \<longrightarrow> pos_x (imagePosition (handleImageDrag z d prev)) = 0)
       \<and> (280 < height (imageSize prev) * z \<longrightarrow> pos_y (imagePosition (handleImageDrag z d prev)) = 0)
       \<and> (400 < offsetWidth_or_0 textRef * z \<longrightarrow>
            pos_x (textPosition (handleTextDrag z textRef d prev)) = 0)
       \<and> (280 < offsetHeight_or_0 textRef * z \<longrightarrow>
            pos_y (textPosition (handleTextDrag z textRef d prev)) = 0)"
  by (simp add: handleImageDrag_def handleTextDrag_def Let_def)

text \<open>
  At zoom 2 a pointer travel of (30, -500) moves the image layer of the initial overlay by
  15 logical units to the right and stops it at the top edge; the text layer, measured
  80 by 20, is stopped at the right edge 400 - 160 = 240. An image resized to 300 by 300
  does not fit the canvas at zoom 2 and is held at (0, 0).
\<close>

theorem drag_step_clamped_position_witness:
  "(1/2 :: real) \<le> 2 \<and> (2 :: real) \<le> 3
   \<and> width (imageSize initialEditFormData) * 2 \<le> 400
   \<and> height (imageSize initialEditFormData) * 2 \<le> 280
   \<and> offsetWidth_or_0 (Some \<lparr> width = 80, height = 20 \<rparr>) * 2 \<le> 400
   \<and> offsetHeight_or_0 (Some \<lparr> width = 80, height = 20 \<rparr>) * 2 \<le> 280
   \<and> imagePosition (handleImageDrag 2 \<lparr> pos_x = 30, pos_y = - 500 \<rparr> initialEditFormData)
       = \<lparr> pos_x = 65, pos_y = 0 \<rparr>
   \<and> textPosition (handleTextDrag 2 (Some \<lparr> width = 80, height = 20 \<rparr>)
         \<lparr> pos_x = 100, pos_y = - 20 \<rparr> initialEditFormData)
       = \<lparr> pos_x = 240, pos_y = 230 \<rparr>
   \<and> 400 < width (imageSize (initialEditFormData\<lparr> imageSize := \<lparr> width = 300, height = 300 \<rparr> \<rparr>)) * 2
   \<and> 280 < height (imageSize (initialEditFormData\<lparr> imageSize := \<lparr> width = 300, height = 300 \<rparr> \<rparr>)) * 2
   \<and> imagePosition (handleImageDrag 2 \<lparr> pos_x = 30, pos_y = 10 \<rparr>
         (initialEditFormData\<lparr> imageSize := \<lparr> width = 300, height = 300 \<rparr> \<rparr>))
       = \<lparr> pos_x = 0, pos_y = 0 \<rparr>"
  using drag_step_clamped_position [of 2 "\<lparr> pos_x = 30, pos_y = - 500 \<rparr>" initialEditFormData
      "Some \<lparr> width = 80, height = 20 \<rparr>"]
    drag_step_clamped_position [of 2 "\<lparr> pos_x = 100, pos_y = - 20 \<rparr>" initialEditFormData
      "Some \<lparr> width = 80, height = 20 \<rparr>"]
    drag_step_clamped_position [of 2 "\<lparr> pos_x = 30, pos_y = 10 \<rparr>"
      "initialEditFormData\<lparr> imageSize := \<lparr> width = 300, height = 300 \<rparr> \<rparr>" None]
  by (simp add: initialEditFormData_def offsetWidth_or_0_def offsetHeight_or_0_def)

subsection \<open>Resizing\<close>

lemma resize_size:
  "imageSize (handleResizeMove g ev prev) =
     \<lparr> width = (case g_handle g of
                   BottomRight \<Rightarrow> max 50 (startWidth g + (pos_x ev - startX g) / g_zoomLevel g)
                 | TopLeft \<Rightarrow> max 50 (startWidth g - (pos_x ev - startX g) / g_zoomLevel g)),
       height = (case g_handle g of
                   BottomRight \<Rightarrow> max 50 (startWidth g + (pos_x ev - startX g) / g_zoomLevel g)
                 | TopLeft \<Rightarrow> max 50 (startWidth g - (pos_x ev - startX g) / g_zoomLevel g))
                / (startWidth g / startHeight g) \<rparr>"
  by (cases "g_handle g") (simp_all add: handleResizeMove_def Let_def)

text \<open>
  Claim C2, as amended. For a resize gesture started on the top-left handle at zoom
  \<open>z\<close> in [0.5, 3.0] on an image of positive size, every pointer move sets the width to
  \<open>max 50 (startWidth - deltaX / z)\<close> and the height to that new width divided by the
  aspect ratio captured at gesture start; the vertical pointer travel does not enter the
  result. (Nothing is stated about the opposite corner.)
\<close>

theorem top_left_resize_size:
  assumes "1/2 \<le> z" and "z \<le> 3"
    and "0 < width (imageSize form)" and "0 < height (imageSize form)"
  shows "width (imageSize (handleResizeMove (handleResizeStart z form e TopLeft) ev prev))
           = max 50 (width (imageSize form) - (pos_x ev - pos_x e) / z)
       \<and> height (imageSize (handleResizeMove (handleResizeStart z form e TopLeft) ev prev))
           = max 50 (width (imageSize form) - (pos_x ev - pos_x e) / z)
             / (width (imageSize form) / height (imageSize form))"
  by (simp add: handleResizeMove_def handleResizeStart_def Let_def)

theorem top_left_resize_size_witness:
  "(1/2 :: real) \<le> 2 \<and> (2 :: real) \<le> 3
   \<and> 0 < width (imageSize movedForm) \<and> 0 < height (imageSize movedForm)
   \<and> width (imageSize (handleResizeMove (handleResizeStart 2 movedForm \<lparr> pos_x = 10, pos_y = 10 \<rparr> TopLeft)
        \<lparr> pos_x = 0, pos_y = 70 \<rparr> movedForm)) = 105
   \<and> height (imageSize (handleResizeMove (handleResizeStart 2 movedForm \<lparr> pos_x = 10, pos_y = 10 \<rparr> TopLeft)
        \<lparr> pos_x = 0, pos_y = 70 \<rparr> movedForm)) = 105"
  using top_left_resize_size [of 2 movedForm "\<lparr> pos_x = 10, pos_y = 10 \<rparr>" "\<lparr> pos_x = 0, pos_y = 70 \<rparr>" movedForm]
  by (simp add: movedForm_def initialEditFormData_def)

text \<open>
  The claim as stated fails. The image is 100 by 100 at (50, 50), zoom 1; the top-left
  handle is pressed at (50, 50) and the pointer moves to (40, 20). The height becomes
  110, not \<open>max 50 (100 + 30) = 130\<close>, and the position stays (50, 50), so the bottom-right
  corner moves from (150, 150) to (160, 160).
\<close>

theorem top_left_resize_counterexample:
  "height (imageSize (handleResizeMove (handleResizeStart 1 movedForm \<lparr> pos_x = 50, pos_y = 50 \<rparr> TopLeft)
        \<lparr> pos_x = 40, pos_y = 20 \<rparr> movedForm)) \<noteq> max 50 (height (imageSize movedForm) - (20 - 50) / 1)
   \<and> pos_x (imagePosition (handleResizeMove (handleResizeStart 1 movedForm \<lparr> pos_x = 50, pos_y = 50 \<rparr> TopLeft)
        \<lparr> pos_x = 40, pos_y = 20 \<rparr> movedForm))
      + width (imageSize (handleResizeMove (handleResizeStart 1 movedForm \<lparr> pos_x = 50, pos_y = 50 \<rparr> TopLeft)
        \<lparr> pos_x = 40, pos_y = 20 \<rparr> movedForm))
      \<noteq> pos_x (imagePosition movedForm) + width (imageSize movedForm)
   \<and> pos_y (imagePosition (handleResizeMove (handleResizeStart 1 movedForm \<lparr> pos_x = 50, pos_y = 50 \<rparr> TopLeft)
        \<lparr> pos_x = 40, pos_y = 20 \<rparr> movedForm))
      + height (imageSize (handleResizeMove (handleResizeStart 1 movedForm \<lparr> pos_x = 50, pos_y = 50 \<rparr> TopLeft)
        \<lparr> pos_x = 40, pos_y = 20 \<rparr> movedForm))
      \<noteq> pos_y (imagePosition movedForm) + height (imageSize movedForm)"
  by (simp add: movedForm_def initialEditFormData_def handleResizeMove_def handleResizeStart_def Let_def)

text \<open>
  Claim C3. For a resize gesture on either handle, started on an image of positive width
  and height, the width-to-height ratio after every resize step equals the ratio captured
  at gesture start, and the height is the width divided by that ratio. (Over the reals the
  equality is exact.)
\<close>

theorem resize_keeps_start_aspect_ratio:
  assumes "0 < width (imageSize form)" and "0 < height (imageSize form)"
  shows "width (imageSize (handleResizeMove (handleResizeStart z form e h) ev prev))
           / height (imageSize (handleResizeMove (handleResizeStart z form e h) ev prev))
         = width (imageSize form) / height (imageSize form)
       \<and> height (imageSize (handleResizeMove (handleResizeStart z form e h) ev prev))
         = width (imageSize (handleResizeMove (handleResizeStart z form e h) ev prev))
           / (width (imageSize form) / height (imageSize form))"
proof -
  let ?g = "handleResizeStart z form e h"
  let ?w = "width (imageSize (handleResizeMove ?g ev prev))"
  have w: "50 \<le> ?w"
    by (cases h) (simp_all add: resize_size handleResizeStart_def)
  have hgt: "height (imageSize (handleResizeMove ?g ev prev))
             = ?w / (width (imageSize form) / height (imageSize form))"
    by (cases h) (simp_all add: resize_size handleResizeStart_def)
  have "?w \<noteq> 0" using w by linarith
  then have "?w / (?w / (width (imageSize form) / height (imageSize form)))
             = width (imageSize form) / height (imageSize form)"
    using assms by simp
  then show ?thesis using hgt by simp
qed

theorem resize_keeps_start_aspect_ratio_witness:
  "0 < width (imageSize movedForm) \<and> 0 < height (imageSize movedForm)
   \<and> imageSize (handleResizeMove (handleResizeStart 2 movedForm \<lparr> pos_x = 10, pos_y = 10 \<rparr> BottomRight)
        \<lparr> pos_x = 70, pos_y = 0 \<rparr> movedForm) = \<lparr> width = 130, height = 130 \<rparr>"
  using resize_keeps_start_aspect_ratio [of movedForm 2 "\<lparr> pos_x = 10, pos_y = 10 \<rparr>" BottomRight
     "\<lparr> pos_x = 70, pos_y = 0 \<rparr>" movedForm]
  by (simp add: movedForm_def initialEditFormData_def handleResizeMove_def handleResizeStart_def Let_def)

subsection \<open>Rotation buttons\<close>

lemma js_rem_nonneg:
  assumes "0 \<le> a" "0 < n"
  shows "0 \<le> js_rem a n \<and> js_rem a n < n"
proof -
  have q: "0 \<le> a / n" using assms by simp
  have t: "js_trunc (a / n) = \<lfloor>a / n\<rfloor>" using q by (simp add: js_trunc_def)
  have lo: "of_int \<lfloor>a / n\<rfloor> \<le> a / n" by (rule of_int_floor_le)
  have hi: "a / n < of_int \<lfloor>a / n\<rfloor> + 1" by linarith
  have na: "n * (a / n) = a" using assms(2) by simp
  have "n * of_int \<lfloor>a / n\<rfloor> \<le> n * (a / n)"
    using lo assms(2) by (intro mult_left_mono) simp_all
  moreover have "n * (a / n) < n * (of_int \<lfloor>a / n\<rfloor> + 1)"
    using hi assms(2) by (intro mult_strict_left_mono) simp_all
  ultimately show ?thesis unfolding js_rem_def t na by (simp add: algebra_simps)
qed

lemma js_rem_nonpos:
  assumes "a \<le> 0" "0 < n"
  shows "- n < js_rem a n \<and> js_rem a n \<le> 0"
proof (cases "a = 0")
  case True
  then show ?thesis using assms by (simp add: js_rem_def js_trunc_def)
next
  case False
  then have q: "a / n < 0" using assms by (simp add: divide_neg_pos)
  have t: "js_trunc (a / n) = \<lceil>a / n\<rceil>" using q by (simp add: js_trunc_def)
  have hi: "a / n \<le> of_int \<lceil>a / n\<rceil>" by (rule le_of_int_ceiling)
  have lo: "of_int \<lceil>a / n\<rceil> - 1 < a / n" by linarith
  have na: "n * (a / n) = a" using assms(2) by simp
  have "n * (a / n) \<le> n * of_int \<lceil>a / n\<rceil>"
    using hi assms(2) by (intro mult_left_mono) simp_all
  moreover have "n * (of_int \<lceil>a / n\<rceil> - 1) < n * (a / n)"
    using lo assms(2) by (intro mult_strict_left_mono) simp_all
  ultimately show ?thesis unfolding js_rem_def t na by (simp add: algebra_simps)
qed

lemma js_rem_congruent: "\<exists>k::int. js_rem a n = a - n * of_int k"
  unfolding js_rem_def by blast

text \<open>
  Claim C8, as amended. For every current text rotation \<open>r\<close> and every step \<open>s\<close> (the
  buttons pass +15 and -15), the press changes only the text rotation; the new rotation
  is the JavaScript remainder of \<open>r + s\<close> by 360: it differs from \<open>r + s\<close> by a multiple
  of 360, lies strictly between -360 and 360, and has the sign of \<open>r + s\<close>; so it lies in
  [0, 360) when \<open>r + s\<close> is not negative and in (-360, 0] when \<open>r + s\<close> is not positive.
\<close>

theorem text_rotation_step_remainder:
  "handleRotationChange TextLayer s prev =
     prev\<lparr> textRotation := textRotation (handleRotationChange TextLayer s prev) \<rparr>
   \<and> (\<exists>k::int. textRotation (handleRotationChange TextLayer s prev) = textRotation prev + s - 360 * of_int k)
   \<and> - 360 < textRotation (handleRotationChange TextLayer s prev)
   \<and> textRotation (handleRotationChange TextLayer s prev) < 360
   \<and> (0 \<le> textRotation prev + s \<longrightarrow> 0 \<le> textRotation (handleRotationChange TextLayer s prev))
   \<and> (textRotation prev + s \<le> 0 \<longrightarrow> textRotation (handleRotationChange TextLayer s prev) \<le> 0)"
proof -
  let ?a = "textRotation prev + s"
  have r: "textRotation (handleRotationChange TextLayer s prev) = js_rem ?a 360"
    by (simp add: handleRotationChange_def)
  have frame: "handleRotationChange TextLayer s prev =
     prev\<lparr> textRotation := textRotation (handleRotationChange TextLayer s prev) \<rparr>"
    by (simp add: handleRotationChange_def)
  have cong: "\<exists>k::int. js_rem ?a 360 = ?a - 360 * of_int k"
    by (rule js_rem_congruent)
  have pos: "0 \<le> ?a \<Longrightarrow> 0 \<le> js_rem ?a 360 \<and> js_rem ?a 360 < 360"
    using js_rem_nonneg [of ?a 360] by simp
  have neg: "?a \<le> 0 \<Longrightarrow> - 360 < js_rem ?a 360 \<and> js_rem ?a 360 \<le> 0"
    using js_rem_nonpos [of ?a 360] by simp
  have bounds: "- 360 < js_rem ?a 360 \<and> js_rem ?a 360 < 360"
  proof (cases "0 \<le> ?a")
    case True
    with pos show ?thesis by linarith
  next
    case False
    with neg show ?thesis by linarith
  qed
  show ?thesis
    unfolding r using frame cong pos neg bounds unfolding r by blast
qed

text \<open>From 350 degrees the + button wraps to 5; from 0 the - button gives -15.\<close>

theorem text_rotation_step_remainder_witness:
  "(0 :: real) \<le> 350 + 15
   \<and> textRotation (handleRotationChange TextLayer 15 (initialEditFormData\<lparr> textRotation := 350 \<rparr>)) = 5
   \<and> (0 :: real) + (- 15) \<le> 0
   \<and> textRotation (handleRotationChange TextLayer (- 15) initialEditFormData) = - 15"
  using text_rotation_step_remainder [of 15 "initialEditFormData\<lparr> textRotation := 350 \<rparr>"]
    text_rotation_step_remainder [of "- 15" initialEditFormData]
  by (simp add: handleRotationChange_def initialEditFormData_def js_rem_def js_trunc_def ceiling_def)

text \<open>
  The claim as stated fails in the initial state: the first press of the - button stores
  -15, which is not in [0, 360).
\<close>

theorem text_rotation_negative_counterexample:
  "\<not> (0 \<le> textRotation (handleRotationChange TextLayer (- 15) initialEditFormData)
      \<and> textRotation (handleRotationChange TextLayer (- 15) initialEditFormData) < 360)"
  by (simp add: handleRotationChange_def initialEditFormData_def js_rem_def js_trunc_def ceiling_def)

section \<open>Properties of the catalog\<close>

subsection \<open>Popular sort\<close>

lemma mset_sort_insert: "mset (sort_insert cmp a xs) = add_mset a (mset xs)"
  by (induction xs) simp_all

lemma mset_array_sort: "mset (array_sort cmp xs) = mset xs"
  by (induction xs) (simp_all add: mset_sort_insert)

lemma set_sort_insert: "set (sort_insert cmp a xs) = insert a (set xs)"
  by (induction xs) auto

lemma sorted_sort_insert_popular:
  "sorted_wrt (\<lambda>a b. count_or_0 (download_count b) \<le> count_or_0 (download_count a)) xs
   \<Longrightarrow> sorted_wrt (\<lambda>a b. count_or_0 (download_count b) \<le> count_or_0 (download_count a))
         (sort_insert popular_cmp a xs)"
  by (induction xs) (auto simp: set_sort_insert)

lemma sorted_array_sort_popular:
  "sorted_wrt (\<lambda>a b. count_or_0 (download_count b) \<le> count_or_0 (download_count a))
     (array_sort popular_cmp xs)"
  by (induction xs) (simp_all add: sorted_sort_insert_popular)

lemma filter_sort_insert_popular:
  "filter (\<lambda>p. count_or_0 (download_count p) = k) (sort_insert popular_cmp a xs)
   = filter (\<lambda>p. count_or_0 (download_count p) = k) (a # xs)"
  by (induction xs) auto

lemma filter_array_sort_popular:
  "filter (\<lambda>p. count_or_0 (download_count p) = k) (array_sort popular_cmp xs)
   = filter (\<lambda>p. count_or_0 (download_count p) = k) xs"
  by (induction xs) (simp_all add: filter_sort_insert_popular)

text \<open>
  Claim C4. For every catalog, search query and category filter, the output of the
  filter-sort effect in \<open>popular\<close> mode has the same entries, with multiplicity, as the
  filtered entries (themselves entries of the catalog); its sequence of download counts,
  an absent count read as 0, is non-increasing; and for each count the entries having it
  appear in the same relative order as in the filtered catalog.
\<close>

theorem popular_sort_stable_descending:
  "mset (filterSort catalog searchQuery selectedCategory Popular)
     = mset (applyFilters catalog searchQuery selectedCategory)
   \<and> sorted_wrt (\<lambda>c d. d \<le> c)
       (map (\<lambda>p. count_or_0 (download_count p)) (filterSort catalog searchQuery selectedCategory Popular))
   \<and> (\<forall>k. filter (\<lambda>p. count_or_0 (download_count p) = k) (filterSort catalog searchQuery selectedCategory Popular)
          = filter (\<lambda>p. count_or_0 (download_count p) = k) (applyFilters catalog searchQuery selectedCategory))
   \<and> mset (applyFilters catalog searchQuery selectedCategory) \<subseteq># mset catalog"
proof -
  let ?flt = "applyFilters catalog searchQuery selectedCategory"
  have out: "filterSort catalog searchQuery selectedCategory Popular = array_sort popular_cmp ?flt"
    by (simp add: filterSort_def)
  have sub: "mset ?flt \<subseteq># mset catalog"
    by (cases "searchQuery = []"; cases "selectedCategory = ''All''")
       (simp_all add: applyFilters_def Let_def)
  show ?thesis
    unfolding out
    using sub by (simp add: mset_array_sort sorted_wrt_map sorted_array_sort_popular filter_array_sort_popular)
qed

text \<open>The example of the claim: filtered counts 5, absent, 5, 2 come out as 5, 5, 2, 0.\<close>

lemma exampleCatalog_filtered:
  "map (\<lambda>p. (poster_id p, count_or_0 (download_count p))) (applyFilters exampleCatalog ''waLI'' ''Festival'')
   = [(1, 5), (2, 0), (3, 5), (4, 2)]"
  by code_simp

lemma exampleCatalog_popular:
  "map (\<lambda>p. (poster_id p, count_or_0 (download_count p))) (filterSort exampleCatalog ''waLI'' ''Festival'' Popular)
   = [(1, 5), (3, 5), (4, 2), (2, 0)]"
  by code_simp

theorem popular_sort_stable_descending_witness:
  "map (\<lambda>p. (poster_id p, count_or_0 (download_count p))) (applyFilters exampleCatalog ''waLI'' ''Festival'')
     = [(1, 5), (2, 0), (3, 5), (4, 2)]
   \<and> map (\<lambda>p. (poster_id p, count_or_0 (download_count p))) (filterSort exampleCatalog ''waLI'' ''Festival'' Popular)
     = [(1, 5), (3, 5), (4, 2), (2, 0)]
   \<and> mset (filterSort exampleCatalog ''waLI'' ''Festival'' Popular)
     = mset (applyFilters exampleCatalog ''waLI'' ''Festival'')"
  using popular_sort_stable_descending [of exampleCatalog "''waLI''" "''Festival''"]
    exampleCatalog_filtered exampleCatalog_popular
  by blast

subsection \<open>Gallery download\<close>

lemma handleDownload_fetch_failed:
  assumes "count_fetch_fails out \<or> posters_table w pid = None"
  shows "handleDownload out pid url ttl w =
           w\<lparr> countdowns := (countdowns w)(pid := None),
               errorMessage := Some ''Failed to update download count.'' \<rparr>"
  using assms by (cases "count_fetch_fails out") (simp_all add: handleDownload_def clear_countdown_def)

lemma handleDownload_update_failed:
  assumes "count_update_fails out"
  shows "handleDownload out pid url ttl w =
           w\<lparr> countdowns := (countdowns w)(pid := None),
               errorMessage := Some ''Failed to update download count.'' \<rparr>"
proof (cases "count_fetch_fails out \<or> posters_table w pid = None")
  case True
  then show ?thesis by (rule handleDownload_fetch_failed)
next
  case False
  then obtain row where "posters_table w pid = Some row" and "\<not> count_fetch_fails out" by auto
  with assms show ?thesis by (simp add: handleDownload_def clear_countdown_def)
qed

lemma handleDownload_counted:
  assumes "\<not> count_fetch_fails out" and "\<not> count_update_fails out"
    and "posters_table w pid = Some row"
  shows "posters_table (handleDownload out pid url ttl w)
           = (posters_table w)(pid \<mapsto> row\<lparr> download_count := Some (count_or_0 (download_count row) + 1) \<rparr>)"
    and "posters (handleDownload out pid url ttl w)
           = set_download_count pid (count_or_0 (download_count row) + 1) (posters w)"
    and "filteredPosters (handleDownload out pid url ttl w)
           = set_download_count pid (count_or_0 (download_count row) + 1) (filteredPosters w)"
    and "asset_fetches (handleDownload out pid url ttl w) = asset_fetches w @ [url]"
  using assms by (cases "asset_response_ok out"; simp add: handleDownload_def clear_countdown_def Let_def)+

lemma set_download_count_entry:
  assumes "p \<in> set (set_download_count pid n ps)" and "poster_id p = pid"
  shows "download_count p = Some n"
proof -
  from assms(1) have "p \<in> (\<lambda>poster. if poster_id poster = pid then poster\<lparr> download_count := Some n \<rparr> else poster) ` set ps"
    unfolding set_download_count_def by (simp only: set_map)
  then obtain q where q: "q \<in> set ps"
    and p: "p = (if poster_id q = pid then q\<lparr> download_count := Some n \<rparr> else q)"
    by (rule imageE)
  show ?thesis
  proof (cases "poster_id q = pid")
    case True
    have "p = q\<lparr> download_count := Some n \<rparr>"
      unfolding p using True by (rule if_P)
    then show ?thesis by simp
  next
    case False
    have "p = q"
      unfolding p using False by (rule if_not_P)
    with False assms(2) show ?thesis by blast
  qed
qed

text \<open>
  Claim C5. If the fetch of the download count fails (an error, or no row with the id) or
  the write-back fails, \<open>handleDownload\<close> surfaces an error message, fetches no asset,
  saves no file and leaves the local catalog and the table as they were. If both succeed,
  the row of the table and every local catalog entry with the id carry the fetched count
  (absent read as 0) plus 1.
\<close>

theorem gallery_download_counter_gate:
  "(count_fetch_fails out \<or> posters_table w pid = None \<or> count_update_fails out \<longrightarrow>
      errorMessage (handleDownload out pid url ttl w) = Some ''Failed to update download count.''
      \<and> asset_fetches (handleDownload out pid url ttl w) = asset_fetches w
      \<and> saved_files (handleDownload out pid url ttl w) = saved_files w
      \<and> posters (handleDownload out pid url ttl w) = posters w
      \<and> filteredPosters (handleDownload out pid url ttl w) = filteredPosters w
      \<and> posters_table (handleDownload out pid url ttl w) = posters_table w)
   \<and> (\<not> count_fetch_fails out \<and> \<not> count_update_fails out \<longrightarrow>
        (\<forall>row. posters_table w pid = Some row \<longrightarrow>
           posters_table (handleDownload out pid url ttl w) pid
             = Some (row\<lparr> download_count := Some (count_or_0 (download_count row) + 1) \<rparr>)
           \<and> posters (handleDownload out pid url ttl w)
             = set_download_count pid (count_or_0 (download_count row) + 1) (posters w)
           \<and> (\<forall>p \<in> set (posters (handleDownload out pid url ttl w)).
                 poster_id p = pid \<longrightarrow> download_count p = Some (count_or_0 (download_count row) + 1))))"
proof (intro conjI impI allI)
  assume f: "count_fetch_fails out \<or> posters_table w pid = None \<or> count_update_fails out"
  have eq: "handleDownload out pid url ttl w =
           w\<lparr> countdowns := (countdowns w)(pid := None),
               errorMessage := Some ''Failed to update download count.'' \<rparr>"
    using f handleDownload_fetch_failed handleDownload_update_failed by blast
  show "errorMessage (handleDownload out pid url ttl w) = Some ''Failed to update download count.''"
    and "asset_fetches (handleDownload out pid url ttl w) = asset_fetches w"
    and "saved_files (handleDownload out pid url ttl w) = saved_files w"
    and "posters (handleDownload out pid url ttl w) = posters w"
    and "filteredPosters (handleDownload out pid url ttl w) = filteredPosters w"
    and "posters_table (handleDownload out pid url ttl w) = posters_table w"
    unfolding eq by simp_all
next
  fix row
  assume ok: "\<not> count_fetch_fails out \<and> \<not> count_update_fails out"
    and row: "posters_table w pid = Some row"
  note c = handleDownload_counted [of out w pid row url ttl]
  show "posters_table (handleDownload out pid url ttl w) pid
             = Some (row\<lparr> download_count := Some (count_or_0 (download_count row) + 1) \<rparr>)"
    using ok row c(1) by simp
  show p: "posters (handleDownload out pid url ttl w)
             = set_download_count pid (count_or_0 (download_count row) + 1) (posters w)"
    using ok row c(2) by simp
  show "\<forall>p \<in> set (posters (handleDownload out pid url ttl w)).
                 poster_id p = pid \<longrightarrow> download_count p = Some (count_or_0 (download_count row) + 1)"
    unfolding p using set_download_count_entry by blast
qed

text \<open>
  Starting from count 3, a successful call leaves 4 in the table and in the catalog and
  saves the file; a failed write-back leaves 3 and saves nothing.
\<close>

theorem gallery_download_counter_gate_witness:
  "posters_table exampleDashboard 7 = Some (mkPoster 7 (Some 3))
   \<and> map download_count (posters (handleDownload
         \<lparr> count_fetch_fails = False, count_update_fails = False, asset_response_ok = True \<rparr>
         7 ''u'' ''Diwali'' exampleDashboard)) = [Some 4]
   \<and> map_option download_count (posters_table (handleDownload
         \<lparr> count_fetch_fails = False, count_update_fails = False, asset_response_ok = True \<rparr>
         7 ''u'' ''Diwali'' exampleDashboard) 7) = Some (Some 4)
   \<and> saved_files (handleDownload
         \<lparr> count_fetch_fails = False, count_update_fails = False, asset_response_ok = True \<rparr>
         7 ''u'' ''Diwali'' exampleDashboard) = [(''u'', ''Diwali'')]
   \<and> map download_count (posters (handleDownload
         \<lparr> count_fetch_fails = False, count_update_fails = True, asset_response_ok = True \<rparr>
         7 ''u'' ''Diwali'' exampleDashboard)) = [Some 3]
   \<and> saved_files (handleDownload
         \<lparr> count_fetch_fails = False, count_update_fails = True, asset_response_ok = True \<rparr>
         7 ''u'' ''Diwali'' exampleDashboard) = []
   \<and> errorMessage (handleDownload
         \<lparr> count_fetch_fails = False, count_update_fails = True, asset_response_ok = True \<rparr>
         7 ''u'' ''Diwali'' exampleDashboard) = Some ''Failed to update download count.''"
  using gallery_download_counter_gate [of
         "\<lparr> count_fetch_fails = False, count_update_fails = False, asset_response_ok = True \<rparr>"
         exampleDashboard 7 "''u''" "''Diwali''"]
    gallery_download_counter_gate [of
         "\<lparr> count_fetch_fails = False, count_update_fails = True, asset_response_ok = True \<rparr>"
         exampleDashboard 7 "''u''" "''Diwali''"]
  by (simp add: exampleDashboard_def mkPoster_def set_download_count_def count_or_0_def handleDownload_def clear_countdown_def)

subsection \<open>Realtime merge\<close>

lemma ids_realtime_update:
  "map poster_id (realtime_handler (UPDATE new) prev) = map poster_id prev"
  by (induction prev) simp_all

lemma distinct_realtime_handler:
  assumes "distinct (map poster_id prev)"
    and "case e of INSERT new \<Rightarrow> poster_id new \<notin> set (map poster_id prev) | _ \<Rightarrow> True"
  shows "distinct (map poster_id (realtime_handler e prev))"
proof (cases e)
  case (INSERT new)
  with assms show ?thesis by simp
next
  case (DELETE old_id)
  with assms(1) show ?thesis by (simp add: distinct_map_filter)
next
  case (UPDATE new)
  with assms(1) show ?thesis by (simp only: ids_realtime_update)
qed

text \<open>
  Claim C9, as amended. Every catalog reached from a catalog with pairwise distinct ids by
  a sequence of realtime handler steps in which every insert event carries an id that the
  catalog does not hold when the event arrives, has pairwise distinct ids.
\<close>

theorem catalog_ids_distinct_fresh_inserts:
  "distinct (map poster_id ps) \<Longrightarrow> inserts_fresh es ps
   \<Longrightarrow> distinct (map poster_id (apply_events es ps))"
proof (induction es arbitrary: ps)
  case Nil
  then show ?case by simp
next
  case (Cons e es)
  from Cons.prems have fresh: "case e of INSERT new \<Rightarrow> poster_id new \<notin> set (map poster_id ps) | _ \<Rightarrow> True"
    and rest: "inserts_fresh es (realtime_handler e ps)"
    by simp_all
  have "distinct (map poster_id (realtime_handler e ps))"
    using Cons.prems(1) fresh by (rule distinct_realtime_handler)
  then have "distinct (map poster_id (apply_events es (realtime_handler e ps)))"
    using rest by (rule Cons.IH)
  then show ?case by simp
qed

theorem catalog_ids_distinct_fresh_inserts_witness:
  "distinct (map poster_id exampleCatalog)
   \<and> inserts_fresh [INSERT (mkPoster 9 None), UPDATE (mkPoster 3 (Some 6)), DELETE 1, INSERT (mkPoster 1 None)] exampleCatalog
   \<and> map poster_id (apply_events [INSERT (mkPoster 9 None), UPDATE (mkPoster 3 (Some 6)), DELETE 1, INSERT (mkPoster 1 None)] exampleCatalog)
       = [1, 9, 2, 3, 4]
   \<and> distinct (map poster_id (apply_events [INSERT (mkPoster 9 None), UPDATE (mkPoster 3 (Some 6)), DELETE 1, INSERT (mkPoster 1 None)] exampleCatalog))"
proof -
  have d: "distinct (map poster_id exampleCatalog)"
    by (simp add: exampleCatalog_def mkPoster_def)
  have f: "inserts_fresh [INSERT (mkPoster 9 None), UPDATE (mkPoster 3 (Some 6)), DELETE 1, INSERT (mkPoster 1 None)] exampleCatalog"
    by (simp add: exampleCatalog_def mkPoster_def)
  have v: "map poster_id (apply_events [INSERT (mkPoster 9 None), UPDATE (mkPoster 3 (Some 6)), DELETE 1, INSERT (mkPoster 1 None)] exampleCatalog)
       = [1, 9, 2, 3, 4]"
    by (simp add: exampleCatalog_def mkPoster_def)
  from catalog_ids_distinct_fresh_inserts [OF d f] d f v show ?thesis by simp
qed

text \<open>
  The claim as stated fails: the handler prepends the record of every insert event, so an
  insert event for an id already in the catalog leaves two entries with that id.
\<close>

theorem catalog_duplicate_insert_counterexample:
  "distinct (map poster_id [mkPoster 1 None])
   \<and> \<not> distinct (map poster_id (apply_events [INSERT (mkPoster 1 None)] [mkPoster 1 None]))"
  by (simp add: mkPoster_def)


section \<open>Properties of the upload pipeline\<close>

subsection \<open>Evaluation of the example inputs\<close>

lemma psdFile_ext: "fileExt_of (file_name (psdFile n)) = ''psd''"
  unfolding psdFile_def by simp code_simp

lemma show_now: "show_nat 1700000000000 = ''1700000000000''"
  by (simp add: show_nat.simps char_of_def bit_Suc_0_iff)

lemma title_hyphen: "replace_spaces ''New  Year'' = ''New-Year''"
  by code_simp

lemma workingEnv_fields:
  "now_file workingEnv = 1700000000000"
  "storage_upload_error workingEnv p = None"
  "insert_error workingEnv = None"
  "publicUrl_of workingEnv p = ''https://cdn/'' @ p"
  "now_iso workingEnv = ''2023-11-14T22:13:20.000Z''"
  by (simp_all add: workingEnv_def)

lemma storageDownEnv_fields:
  "now_file storageDownEnv = 1700000000000"
  "storage_upload_error storageDownEnv p = Some ''Bucket not found''"
  by (simp_all add: storageDownEnv_def workingEnv_def)

lemma psdForm_fields:
  "form_file (psdForm n) = Some (psdFile n)"
  "form_thumbnail (psdForm n) = None"
  "form_title (psdForm n) = Some ''New  Year''"
  "form_category (psdForm n) = Some ''Festival''"
  "form_isEditable (psdForm n) = Some ''true''"
  "form_fontFamily (psdForm n) = Some ''Roboto''"
  by (simp_all add: psdForm_def)

lemma psdFile_fields:
  "file_size (psdFile n) = n"
  "file_type (psdFile n) = ''image/vnd.adobe.photoshop''"
  by (simp_all add: psdFile_def)

lemma editablePsdState_fields:
  "fd_isEditable (formData (editablePsdState n))"
  "fd_file (formData (editablePsdState n)) = Some (psdFile n)"
  "fd_thumbnail (formData (editablePsdState n)) = None"
  "fd_title (formData (editablePsdState n)) = ''New  Year''"
  by (simp_all add: editablePsdState_def)

lemma plainPsdState_fields:
  "\<not> fd_isEditable (formData (plainPsdState n))"
  "fd_file (formData (plainPsdState n)) = Some (psdFile n)"
  "fd_thumbnail (formData (plainPsdState n)) = None"
  "fd_title (formData (plainPsdState n)) = ''New  Year''"
  by (simp_all add: plainPsdState_def)

subsection \<open>Validation in the admin form\<close>

text \<open>
  Claim C6. A submission of the admin form with \<open>isEditable\<close> set, an asset whose file
  name ends in the extension \<open>psd\<close> (in any letter case) and no thumbnail is rejected by
  \<open>handleSave\<close> with a validation error, and no backend call is made: no HTTP request, hence
  no storage upload and no table insert. The message is the one of the thumbnail check,
  or the one of the title check when the title is empty; the form data are kept.
\<close>

theorem editable_psd_without_thumbnail_rejected:
  assumes "fd_isEditable (formData st)"
    and "fd_file (formData st) = Some f"
    and "fileExt_of (file_name f) = ''psd''"
    and "fd_thumbnail (formData st) = None"
  shows "snd (handleSave env st) = []
       \<and> error (fst (handleSave env st))
           = Some (if fd_title (formData st) = [] then ''Title and file are required.''
                   else ''Thumbnail image (PNG/JPEG) is required for editable PSDs.'')
       \<and> \<not> saving (fst (handleSave env st))
       \<and> uploadProgress (fst (handleSave env st)) = 0
       \<and> formData (fst (handleSave env st)) = formData st"
  using assms
  by (cases "fd_title (formData st) = []") (simp_all add: handleSave_def validation_error_def Let_def)

theorem editable_psd_without_thumbnail_rejected_witness:
  "fd_isEditable (formData (editablePsdState 10))
   \<and> fd_file (formData (editablePsdState 10)) = Some (psdFile 10)
   \<and> fileExt_of (file_name (psdFile 10)) = ''psd''
   \<and> fd_thumbnail (formData (editablePsdState 10)) = None
   \<and> snd (handleSave workingEnv (editablePsdState 10)) = []
   \<and> error (fst (handleSave workingEnv (editablePsdState 10)))
         = Some ''Thumbnail image (PNG/JPEG) is required for editable PSDs.''"
  using editable_psd_without_thumbnail_rejected [of "editablePsdState 10" "psdFile 10" workingEnv]
  by (simp add: editablePsdState_fields psdFile_ext)

subsection \<open>The size limit\<close>

lemma size_error_message_eq: "size_error_message = ''File size exceeds maximum limit of 50MB''"
  by (simp add: size_error_message_def MAX_FILE_SIZE_def show_nat.simps char_of_def bit_Suc_0_iff)

lemma exceeds_max_iff:
  "exceeds_max f thumbnail \<longleftrightarrow>
     50 * 2 ^ 20 < file_size f \<or> (\<exists>t. thumbnail = Some t \<and> 50 * 2 ^ 20 < file_size t)"
  by (cases thumbnail) (simp_all add: exceeds_max_def MAX_FILE_SIZE_def)

lemma POST_oversize:
  assumes "form_file fd = Some f" and "form_title fd = Some ttl" and "ttl \<noteq> []"
    and "form_category fd = Some cat" and "cat \<noteq> []"
    and "exceeds_max f (form_thumbnail fd)"
  shows "POST env (Inr fd) = (\<lparr> status = 400, body = ErrorBody size_error_message \<rparr>, [])"
  unfolding POST_def using assms by (simp add: error_response_def)

lemma POST_size_ok_calls:
  assumes "form_file fd = Some f" and "form_title fd = Some ttl" and "ttl \<noteq> []"
    and "form_category fd = Some cat" and "cat \<noteq> []"
    and "\<not> exceeds_max f (form_thumbnail fd)"
  shows "\<exists>path rest. snd (POST env (Inr fd)) = StorageUpload path (file_type f) # rest"
  unfolding POST_def using assms
  by (simp add: Let_def insert_and_respond_def split: option.split)

lemma handleSave_oversize:
  assumes "fd_title (formData st) \<noteq> []" and "fd_file (formData st) = Some f"
    and "exceeds_max f (fd_thumbnail (formData st))"
  shows "snd (handleSave env st) = []"
    and "error (fst (handleSave env st)) =
           Some (if fd_isEditable (formData st) \<and> fileExt_of (file_name f) = ''psd''
                    \<and> fd_thumbnail (formData st) = None
                 then ''Thumbnail image (PNG/JPEG) is required for editable PSDs.''
                 else size_error_message)"
  using assms by (simp_all add: handleSave_def validation_error_def Let_def)

lemma handleSave_size_ok_sends:
  assumes "fd_title (formData st) \<noteq> []" and "fd_file (formData st) = Some f"
    and "\<not> (fd_isEditable (formData st) \<and> fileExt_of (file_name f) = ''psd''
            \<and> fd_thumbnail (formData st) = None)"
    and "\<not> exceeds_max f (fd_thumbnail (formData st))"
  shows "\<exists>form rest. snd (handleSave env st) = HttpPost ''/api/upload'' form # rest"
  using assms by (auto simp add: handleSave_def Let_def split: prod.split)

text \<open>
  Claim C7. The size test of the route and of the admin form accepts an asset or a
  thumbnail of exactly 50 MiB (50 times 2 to the 20 bytes) and rejects one of exactly
  50 MiB + 1 byte. In the route, a request with file, title and category present is
  answered 400 with the size message and without any backend call when the test fails, and
  goes on to the storage upload when it passes. In the admin form, a submission with title
  and file present is rejected with a validation error and without any backend call when
  the test fails, and is sent to the route when the test and the thumbnail check pass.
\<close>

theorem size_limit_boundary:
  "(file_size f = 50 * 2 ^ 20 \<and> (\<forall>t. thumbnail = Some t \<longrightarrow> file_size t \<le> 50 * 2 ^ 20)
      \<longrightarrow> \<not> exceeds_max f thumbnail)
   \<and> (file_size t = 50 * 2 ^ 20 \<and> file_size f \<le> 50 * 2 ^ 20 \<longrightarrow> \<not> exceeds_max f (Some t))
   \<and> (file_size f = 50 * 2 ^ 20 + 1 \<longrightarrow> exceeds_max f thumbnail)
   \<and> (file_size t = 50 * 2 ^ 20 + 1 \<longrightarrow> exceeds_max f (Some t))
   \<and> (form_file fd = Some f \<and> form_title fd = Some ttl \<and> ttl \<noteq> []
        \<and> form_category fd = Some cat \<and> cat \<noteq> [] \<longrightarrow>
        (exceeds_max f (form_thumbnail fd) \<longrightarrow>
           POST env (Inr fd)
             = (\<lparr> status = 400, body = ErrorBody ''File size exceeds maximum limit of 50MB'' \<rparr>, []))
        \<and> (\<not> exceeds_max f (form_thumbnail fd) \<longrightarrow>
           (\<exists>path rest. snd (POST env (Inr fd)) = StorageUpload path (file_type f) # rest)))
   \<and> (fd_title (formData st) \<noteq> [] \<and> fd_file (formData st) = Some f \<longrightarrow>
        (exceeds_max f (fd_thumbnail (formData st)) \<longrightarrow>
           snd (handleSave env st) = []
           \<and> error (fst (handleSave env st)) =
               Some (if fd_isEditable (formData st) \<and> fileExt_of (file_name f) = ''psd''
                        \<and> fd_thumbnail (formData st) = None
                     then ''Thumbnail image (PNG/JPEG) is required for editable PSDs.''
                     else ''File size exceeds maximum limit of 50MB''))
        \<and> (\<not> exceeds_max f (fd_thumbnail (formData st))
            \<and> \<not> (fd_isEditable (formData st) \<and> fileExt_of (file_name f) = ''psd''
                    \<and> fd_thumbnail (formData st) = None) \<longrightarrow>
           (\<exists>form rest. snd (handleSave env st) = HttpPost ''/api/upload'' form # rest)))"
proof (intro conjI impI)
  show "\<not> exceeds_max f thumbnail"
    if "file_size f = 50 * 2 ^ 20 \<and> (\<forall>t. thumbnail = Some t \<longrightarrow> file_size t \<le> 50 * 2 ^ 20)"
    using that unfolding exceeds_max_iff by auto
  show "\<not> exceeds_max f (Some t)" if "file_size t = 50 * 2 ^ 20 \<and> file_size f \<le> 50 * 2 ^ 20"
    using that unfolding exceeds_max_iff by auto
  show "exceeds_max f thumbnail" if "file_size f = 50 * 2 ^ 20 + 1"
    using that unfolding exceeds_max_iff by simp
  show "exceeds_max f (Some t)" if "file_size t = 50 * 2 ^ 20 + 1"
    using that unfolding exceeds_max_iff by simp
next
  assume a: "form_file fd = Some f \<and> form_title fd = Some ttl \<and> ttl \<noteq> []
        \<and> form_category fd = Some cat \<and> cat \<noteq> []"
  show "POST env (Inr fd) = (\<lparr> status = 400, body = ErrorBody ''File size exceeds maximum limit of 50MB'' \<rparr>, [])"
    if "exceeds_max f (form_thumbnail fd)"
    using POST_oversize [of fd f ttl cat env] a that by (simp add: size_error_message_eq)
  show "\<exists>path rest. snd (POST env (Inr fd)) = StorageUpload path (file_type f) # rest"
    if "\<not> exceeds_max f (form_thumbnail fd)"
    using POST_size_ok_calls [of fd f ttl cat env] a that by blast
next
  assume a: "fd_title (formData st) \<noteq> [] \<and> fd_file (formData st) = Some f"
  show "snd (handleSave env st) = []" if "exceeds_max f (fd_thumbnail (formData st))"
    using handleSave_oversize(1) [of st f env] a that by blast
  show "error (fst (handleSave env st)) =
               Some (if fd_isEditable (formData st) \<and> fileExt_of (file_name f) = ''psd''
                        \<and> fd_thumbnail (formData st) = None
                     then ''Thumbnail image (PNG/JPEG) is required for editable PSDs.''
                     else ''File size exceeds maximum limit of 50MB'')"
    if "exceeds_max f (fd_thumbnail (formData st))"
    using handleSave_oversize(2) [of st f env] a that by (simp add: size_error_message_eq)
  show "\<exists>form rest. snd (handleSave env st) = HttpPost ''/api/upload'' form # rest"
    if "\<not> exceeds_max f (fd_thumbnail (formData st))
            \<and> \<not> (fd_isEditable (formData st) \<and> fileExt_of (file_name f) = ''psd''
                    \<and> fd_thumbnail (formData st) = None)"
    using handleSave_size_ok_sends [of st f env] a that by blast
qed

theorem size_limit_boundary_witness:
  "file_size (psdFile 52428800) = 50 * 2 ^ 20
   \<and> \<not> exceeds_max (psdFile 52428800) None
   \<and> file_size (psdFile 52428801) = 50 * 2 ^ 20 + 1
   \<and> exceeds_max (psdFile 52428801) None
   \<and> POST workingEnv (Inr (psdForm 52428801))
       = (\<lparr> status = 400, body = ErrorBody ''File size exceeds maximum limit of 50MB'' \<rparr>, [])
   \<and> (\<exists>path rest. snd (POST workingEnv (Inr (psdForm 52428800)))
         = StorageUpload path ''image/vnd.adobe.photoshop'' # rest)
   \<and> snd (handleSave workingEnv (plainPsdState 52428801)) = []
   \<and> error (fst (handleSave workingEnv (plainPsdState 52428801)))
       = Some ''File size exceeds maximum limit of 50MB''
   \<and> (\<exists>form rest. snd (handleSave workingEnv (plainPsdState 52428800))
         = HttpPost ''/api/upload'' form # rest)"
proof -
  have s0: "file_size (psdFile 52428800) = 50 * 2 ^ 20"
    and s1: "file_size (psdFile 52428801) = 50 * 2 ^ 20 + 1"
    by (simp_all add: psdFile_fields)
  note ok = size_limit_boundary [where f = "psdFile 52428800" and thumbnail = None
      and fd = "psdForm 52428800" and ttl = "''New  Year''" and cat = "''Festival''"
      and env = workingEnv and st = "plainPsdState 52428800"]
  note over = size_limit_boundary [where f = "psdFile 52428801" and thumbnail = None
      and fd = "psdForm 52428801" and ttl = "''New  Year''" and cat = "''Festival''"
      and env = workingEnv and st = "plainPsdState 52428801"]
  have n0: "\<not> exceeds_max (psdFile 52428800) None"
    using ok s0 by simp
  have x1: "exceeds_max (psdFile 52428801) None"
    using over s1 by simp
  have p1: "POST workingEnv (Inr (psdForm 52428801))
       = (\<lparr> status = 400, body = ErrorBody ''File size exceeds maximum limit of 50MB'' \<rparr>, [])"
    using over x1 by (simp add: psdForm_fields)
  have p0: "\<exists>path rest. snd (POST workingEnv (Inr (psdForm 52428800)))
         = StorageUpload path ''image/vnd.adobe.photoshop'' # rest"
    using ok n0 by (simp add: psdForm_fields psdFile_fields(2))
  have h1: "snd (handleSave workingEnv (plainPsdState 52428801)) = []
     \<and> error (fst (handleSave workingEnv (plainPsdState 52428801)))
       = Some ''File size exceeds maximum limit of 50MB''"
    using over x1 by (simp add: plainPsdState_fields)
  have h0: "\<exists>form rest. snd (handleSave workingEnv (plainPsdState 52428800))
         = HttpPost ''/api/upload'' form # rest"
    using ok n0 by (simp add: plainPsdState_fields)
  from s0 s1 n0 x1 p1 p0 h1 h0 show ?thesis by blast
qed

subsection \<open>The route does not require a thumbnail\<close>

lemma POST_storage_error:
  assumes "form_file fd = Some f" and "form_title fd = Some ttl" and "ttl \<noteq> []"
    and "form_category fd = Some cat" and "cat \<noteq> []"
    and "form_thumbnail fd = None" and "file_size f \<le> MAX_FILE_SIZE"
    and "fileExt_of (file_name f) = ''psd''"
    and "storage_upload_error env (''psd/'' @ show_nat (now_file env) @ ''-'' @ replace_spaces ttl @ ''.psd'') = Some msg"
  shows "POST env (Inr fd) =
    (\<lparr> status = 400, body = ErrorBody (''Upload failed: '' @ msg) \<rparr>,
     [StorageUpload (''psd/'' @ show_nat (now_file env) @ ''-'' @ replace_spaces ttl @ ''.psd'') (file_type f)])"
proof -
  have nx: "\<not> exceeds_max f (form_thumbnail fd)"
    using assms(6,7) by (simp add: exceeds_max_def)
  show ?thesis
    unfolding POST_def using assms nx
    by (simp add: Let_def error_response_def)
qed

text \<open>
  Claim C10, as amended. For every request to the route with file, title and category
  present, the file within the size limit, the extension \<open>psd\<close> and no thumbnail part,
  for which the storage upload and the table insert report no error, the route answers
  200 and inserts a row whose \<open>download_url\<close> is the empty string and whose \<open>psd_url\<close> is
  the public URL of the asset, stored under \<open>psd/\<close>: the route itself does not require a
  thumbnail for an editable layered-source asset.
\<close>

theorem psd_without_thumbnail_accepted:
  assumes "form_file fd = Some f" and "form_title fd = Some ttl" and "ttl \<noteq> []"
    and "form_category fd = Some cat" and "cat \<noteq> []"
    and "form_thumbnail fd = None" and "file_size f \<le> MAX_FILE_SIZE"
    and "fileExt_of (file_name f) = ''psd''"
    and "storage_upload_error env (''psd/'' @ show_nat (now_file env) @ ''-'' @ replace_spaces ttl @ ''.psd'') = None"
    and "insert_error env = None"
  shows "POST env (Inr fd) =
    (\<lparr> status = 200,
       body = UploadBody [] ttl cat (form_isEditable fd = Some ''true'') (form_fontFamily fd) \<rparr>,
     [StorageUpload (''psd/'' @ show_nat (now_file env) @ ''-'' @ replace_spaces ttl @ ''.psd'') (file_type f),
      TableInsert \<lparr> row_title = ttl, row_category = cat, row_download_url = [],
        row_psd_url = Some (publicUrl_of env (''psd/'' @ show_nat (now_file env) @ ''-'' @ replace_spaces ttl @ ''.psd'')),
        row_font_family = form_fontFamily fd,
        row_is_editable = (form_isEditable fd = Some ''true''),
        row_created_at = now_iso env \<rparr>])"
proof -
  have nx: "\<not> exceeds_max f (form_thumbnail fd)"
    using assms(6,7) by (simp add: exceeds_max_def)
  show ?thesis
    unfolding POST_def using assms nx
    by (simp add: Let_def insert_and_respond_def)
qed

theorem psd_without_thumbnail_accepted_witness:
  "POST workingEnv (Inr (psdForm 10)) =
    (\<lparr> status = 200, body = UploadBody [] ''New  Year'' ''Festival'' True (Some ''Roboto'') \<rparr>,
     [StorageUpload ''psd/1700000000000-New-Year.psd'' ''image/vnd.adobe.photoshop'',
      TableInsert \<lparr> row_title = ''New  Year'', row_category = ''Festival'', row_download_url = [],
        row_psd_url = Some ''https://cdn/psd/1700000000000-New-Year.psd'',
        row_font_family = Some ''Roboto'', row_is_editable = True,
        row_created_at = ''2023-11-14T22:13:20.000Z'' \<rparr>])"
proof -
  have sz: "file_size (psdFile 10) \<le> MAX_FILE_SIZE"
    by (simp add: psdFile_fields MAX_FILE_SIZE_def)
  have "POST workingEnv (Inr (psdForm 10)) =
    (\<lparr> status = 200,
       body = UploadBody [] ''New  Year'' ''Festival'' (form_isEditable (psdForm 10) = Some ''true'') (form_fontFamily (psdForm 10)) \<rparr>,
     [StorageUpload (''psd/'' @ show_nat (now_file workingEnv) @ ''-'' @ replace_spaces ''New  Year'' @ ''.psd'') (file_type (psdFile 10)),
      TableInsert \<lparr> row_title = ''New  Year'', row_category = ''Festival'', row_download_url = [],
        row_psd_url = Some (publicUrl_of workingEnv (''psd/'' @ show_nat (now_file workingEnv) @ ''-'' @ replace_spaces ''New  Year'' @ ''.psd'')),
        row_font_family = form_fontFamily (psdForm 10),
        row_is_editable = (form_isEditable (psdForm 10) = Some ''true''),
        row_created_at = now_iso workingEnv \<rparr>])"
    using psd_without_thumbnail_accepted [where fd = "psdForm 10" and f = "psdFile 10" and ttl = "''New  Year''"
        and cat = "''Festival''" and env = workingEnv]
    by (simp add: psdForm_fields sz psdFile_ext workingEnv_fields)
  then show ?thesis
    by (simp add: psdForm_fields workingEnv_fields psdFile_fields show_now title_hyphen)
qed

text \<open>
  The claim as stated fails when the storage service reports an error: the same request
  is answered 400 after the upload attempt, and no row is inserted.
\<close>

theorem psd_without_thumbnail_counterexample:
  "form_file (psdForm 10) = Some (psdFile 10)
   \<and> form_thumbnail (psdForm 10) = None
   \<and> form_title (psdForm 10) = Some ''New  Year''
   \<and> form_category (psdForm 10) = Some ''Festival''
   \<and> file_size (psdFile 10) \<le> MAX_FILE_SIZE
   \<and> fileExt_of (file_name (psdFile 10)) = ''psd''
   \<and> POST storageDownEnv (Inr (psdForm 10)) =
       (\<lparr> status = 400, body = ErrorBody ''Upload failed: Bucket not found'' \<rparr>,
        [StorageUpload ''psd/1700000000000-New-Year.psd'' ''image/vnd.adobe.photoshop''])"
proof -
  have sz: "file_size (psdFile 10) \<le> MAX_FILE_SIZE"
    by (simp add: psdFile_fields MAX_FILE_SIZE_def)
  have "POST storageDownEnv (Inr (psdForm 10)) =
    (\<lparr> status = 400, body = ErrorBody (''Upload failed: '' @ ''Bucket not found'') \<rparr>,
     [StorageUpload (''psd/'' @ show_nat (now_file storageDownEnv) @ ''-'' @ replace_spaces ''New  Year'' @ ''.psd'')
        (file_type (psdFile 10))])"
    using POST_storage_error [where fd = "psdForm 10" and f = "psdFile 10" and ttl = "''New  Year''"
        and cat = "''Festival''" and env = storageDownEnv and msg = "''Bucket not found''"]
    by (simp add: psdForm_fields sz psdFile_ext storageDownEnv_fields)
  then show ?thesis
    by (simp add: psdForm_fields psdFile_ext storageDownEnv_fields psdFile_fields show_now title_hyphen
        MAX_FILE_SIZE_def)
qed


end
